theory Spec2Isabelle
  imports Main
begin

section \<open>DES and its key schedule (sage/crypto/block\_cipher/des.py)\<close>

subsection \<open>Python values, exceptions and sequences\<close>

text \<open>
  The exceptions the module can raise. \<open>ValueError\<close> carries its message; the
  specification files every \<open>ValueError\<close> of this module under the name
  ConfigurationError. \<open>AttributeError\<close> carries the name of the missing attribute.
\<close>

datatype error =
    ValueError string
  | NotImplementedError
  | AttributeError string
  | IndexError

text \<open>Sequencing of two computations that may raise: the first exception wins.\<close>

definition bind_result :: "error + 'a \<Rightarrow> ('a \<Rightarrow> error + 'b) \<Rightarrow> error + 'b" where
  "bind_result m f = (case m of Inl e \<Rightarrow> Inl e | Inr x \<Rightarrow> f x)"

text \<open>
  Python list indexing \<open>xs[i]\<close>: a negative index counts from the end, an index out
  of range raises IndexError.
\<close>

definition py_index :: "'a list \<Rightarrow> int \<Rightarrow> error + 'a" where
  "py_index xs i =
     (if 0 \<le> i \<and> i < int (length xs) then Inr (xs ! nat i)
      else if i < 0 \<and> - int (length xs) \<le> i then Inr (xs ! nat (int (length xs) + i))
      else Inl IndexError)"

subsection \<open>The key schedule's left rotation\<close>

text \<open>
  \<^verbatim>\<open>amount = [1, 1, 2, 2, 2, 2, 2, 2, 1, 2, 2, 2, 2, 2, 2, 1]\<close>, the local table of
  \<open>_left_shift\<close>.
\<close>

definition amount :: "nat list" where
  "amount = [1, 1, 2, 2, 2, 2, 2, 2, 1, 2, 2, 2, 2, 2, 2, 1]"

text \<open>
  A vector over GF(2) is a list of bits. For a slice bound \<open>a \<ge> 0\<close> Python's
  \<open>half[a:]\<close> is \<open>drop a half\<close> and \<open>half[0:a]\<close> is \<open>take a half\<close>, also when
  \<open>a\<close> exceeds the length.
  \<^verbatim>\<open>
  def _left_shift(self, half, i):
      amount = [...]
      return vector(GF(2), list(half[amount[i-1]:]) + list(half[0:amount[i-1]]))
  \<close>
\<close>

definition left_shift :: "bool list \<Rightarrow> int \<Rightarrow> error + bool list" where
  "left_shift half i =
     bind_result (py_index amount (i - 1))
       (\<lambda>a. Inr (drop a half @ take a half))"

text \<open>
  The shift table in the specification's words: one bit in rounds 1, 2, 9 and 16, two
  bits in every other round. It is compared with \<open>amount\<close> below.
\<close>

definition spec_shift :: "int \<Rightarrow> nat" where
  "spec_shift i = (if i \<in> {1, 2, 9, 16} then 1 else 2)"

subsection \<open>The rotation on a store of vectors\<close>

text \<open>
  To say that \<open>_left_shift\<close> leaves its argument alone, vectors live in a store and
  are passed by reference, as Python objects are. The store is the list of all vectors
  allocated so far; a reference is a position in it. Creating a vector appends to the
  store and never overwrites.

  The body of \<open>_left_shift\<close> creates three vectors: the two slices of \<open>half\<close>
  and the result of \<open>vector(GF(2), ...)\<close>. The table lookup comes first, so an
  index out of range raises before anything is created.
\<close>

type_synonym ref = nat
type_synonym store = "bool list list"

definition new_vector :: "store \<Rightarrow> bool list \<Rightarrow> ref \<times> store" where
  "new_vector s v = (length s, s @ [v])"

definition left_shift_store :: "store \<Rightarrow> ref \<Rightarrow> int \<Rightarrow> (error + ref) \<times> store" where
  "left_shift_store s half i =
     (case py_index amount (i - 1) of
        Inl e \<Rightarrow> (Inl e, s)
      | Inr a \<Rightarrow>
          (let (p, s1) = new_vector s (drop a (s ! half));
               (q, s2) = new_vector s1 (take a (s1 ! half));
               (r, s3) = new_vector s2 (s2 ! p @ s2 ! q)
           in (Inr r, s3)))"

subsection \<open>The classes \<open>DES_KS\<close> and \<open>DES\<close>\<close>

text \<open>
  Blocks and keys are integers or bit sequences; the model is parametric in their
  representation \<open>'v\<close>. \<open>_rounds\<close> and \<open>_blocksize\<close> are Python integers.
\<close>

record 'v DES_KS =
  KS_rounds :: int
  KS_master_key :: "'v option"

text \<open>
  \<^verbatim>\<open>def __init__(self, rounds=16, master_key=None)\<close>: a call that omits
  \<open>rounds\<close> passes \<open>DES_KS_rounds_default\<close>, one that omits \<open>master_key\<close>
  passes \<open>None\<close>.
\<close>

definition DES_KS_rounds_default :: int where
  "DES_KS_rounds_default = 16"

definition DES_KS_init :: "int \<Rightarrow> 'v option \<Rightarrow> 'v DES_KS" where
  "DES_KS_init rounds master_key = \<lparr>KS_rounds = rounds, KS_master_key = master_key\<rparr>"

text \<open>
  The values the \<open>keySchedule\<close> argument of \<open>DES.__init__\<close> is modelled on:
  Python's \<open>None\<close>, Python's \<open>False\<close> and an instance of \<open>DES_KS\<close>.
\<close>

datatype 'v pyobj = Py_None | Py_False | Py_DES_KS "'v DES_KS"

record 'v DES =
  DES_keySchedule :: "'v DES_KS"
  DES_rounds :: int
  DES_blocksize :: int

text \<open>Any Python object, as the right operand of \<open>==\<close>.\<close>

datatype 'v object = DES_object "'v DES" | Other_object "'v pyobj"

text \<open>
  \<^verbatim>\<open>def __init__(self, rounds=None, keySchedule=False)\<close>: the signature's default
  for \<open>keySchedule\<close> is \<open>False\<close>.
\<close>

definition DES_keySchedule_default :: "'v pyobj" where
  "DES_keySchedule_default = Py_False"

text \<open>
  \<^verbatim>\<open>
  if keySchedule is None: self._keySchedule = DES_KS()
  else:                   self._keySchedule = keySchedule
  if rounds is None:      self._rounds = self._keySchedule._rounds
  elif rounds <= self._keySchedule._rounds: self._rounds = rounds
  else: raise ValueError(...)
  self._blocksize = 64
  \<close>
  Both branches on \<open>rounds\<close> start by reading \<open>self._keySchedule._rounds\<close>,
  which raises AttributeError on a value that has no such attribute, as \<open>False\<close>
  has none; so the model looks at the stored key schedule first.
\<close>

definition DES_init :: "int option \<Rightarrow> 'v pyobj \<Rightarrow> error + 'v DES" where
  "DES_init rounds keySchedule =
     (case (case keySchedule of
              Py_None \<Rightarrow> Py_DES_KS (DES_KS_init DES_KS_rounds_default None)
            | v \<Rightarrow> v) of
        Py_DES_KS ks \<Rightarrow>
          (case rounds of
             None \<Rightarrow>
               Inr \<lparr>DES_keySchedule = ks, DES_rounds = KS_rounds ks, DES_blocksize = 64\<rparr>
           | Some r \<Rightarrow>
               if r \<le> KS_rounds ks
               then Inr \<lparr>DES_keySchedule = ks, DES_rounds = r, DES_blocksize = 64\<rparr>
               else Inl (ValueError
                 (''number of rounds must be less or equal to the '' @
                  ''number of rounds of the key schedule'')))
      | _ \<Rightarrow> Inl (AttributeError ''_rounds''))"

text \<open>\<open>encrypt\<close> and \<open>decrypt\<close>: both bodies are \<^verbatim>\<open>raise NotImplementedError\<close>.\<close>

definition encrypt :: "'v DES \<Rightarrow> 'v \<Rightarrow> 'v \<Rightarrow> error + 'v" where
  "encrypt self P K = Inl NotImplementedError"

definition decrypt :: "'v DES \<Rightarrow> 'v \<Rightarrow> 'v \<Rightarrow> error + 'v" where
  "decrypt self C K = Inl NotImplementedError"

text \<open>
  \<^verbatim>\<open>
  def __call__(self, B, K, algorithm='encrypt'):
      if algorithm == 'encrypt':   return self.encrypt(B, K)
      elif algorithm == 'decrypt': return self.decrypt(B, K)
      else: raise ValueError("Algorithm must be 'encrypt' or 'decrypt' and not '%s'"
                             % algorithm)
  \<close>
\<close>

text \<open>
  \<open>self.encrypt\<close> and \<open>self.decrypt\<close> are looked up on \<open>self\<close> when the
  line runs. \<open>DES_call_with\<close> is the body of \<open>__call__\<close> for any two methods
  bound to these names; \<open>DES_call\<close> is \<open>__call__\<close> of the class as it stands,
  with its own \<open>encrypt\<close> and \<open>decrypt\<close>.
\<close>

definition DES_call_with ::
  "('v DES \<Rightarrow> 'v \<Rightarrow> 'v \<Rightarrow> error + 'v) \<Rightarrow> ('v DES \<Rightarrow> 'v \<Rightarrow> 'v \<Rightarrow> error + 'v) \<Rightarrow>
   'v DES \<Rightarrow> 'v \<Rightarrow> 'v \<Rightarrow> string \<Rightarrow> error + 'v" where
  "DES_call_with self_encrypt self_decrypt self B K algorithm =
     (if algorithm = ''encrypt'' then self_encrypt self B K
      else if algorithm = ''decrypt'' then self_decrypt self B K
      else Inl (ValueError
        (''Algorithm must be 'encrypt' or 'decrypt' and not '' @
         [CHR 0x27] @ algorithm @ [CHR 0x27])))"

definition DES_call :: "'v DES \<Rightarrow> 'v \<Rightarrow> 'v \<Rightarrow> string \<Rightarrow> error + 'v" where
  "DES_call self B K algorithm = DES_call_with encrypt decrypt self B K algorithm"

text \<open>\<open>DES_KS.__call__\<close>, the derivation of all round keys: \<^verbatim>\<open>raise NotImplementedError\<close>.\<close>

definition DES_KS_call :: "'v DES_KS \<Rightarrow> 'v \<Rightarrow> error + 'v list" where
  "DES_KS_call self K = Inl NotImplementedError"

text \<open>
  \<^verbatim>\<open>
  def __getitem__(self, r):
      if self._master_key is None: raise ValueError('Key not set during initialisation')
      return self(self._master_key)[r]
  def __iter__(self):
      if self._master_key is None: raise ValueError('Key not set during initialisation')
      return iter(self(self._master_key))
  \<close>
  The iterator over a list is modelled by the list of the elements it yields, in order.
  The call \<open>self(...)\<close> is resolved on \<open>self\<close> when the line runs:
  \<open>DES_KS_getitem_with\<close> and \<open>DES_KS_iter_with\<close> are the two bodies for any
  \<open>__call__\<close>, and \<open>DES_KS_getitem\<close> and \<open>DES_KS_iter\<close> are the methods of the
  class as it stands, with its own \<open>__call__\<close>.
\<close>

definition DES_KS_getitem_with ::
  "('v DES_KS \<Rightarrow> 'v \<Rightarrow> error + 'v list) \<Rightarrow> 'v DES_KS \<Rightarrow> int \<Rightarrow> error + 'v" where
  "DES_KS_getitem_with self_call self r =
     (case KS_master_key self of
        None \<Rightarrow> Inl (ValueError ''Key not set during initialisation'')
      | Some k \<Rightarrow> bind_result (self_call self k) (\<lambda>keys. py_index keys r))"

definition DES_KS_iter_with ::
  "('v DES_KS \<Rightarrow> 'v \<Rightarrow> error + 'v list) \<Rightarrow> 'v DES_KS \<Rightarrow> error + 'v list" where
  "DES_KS_iter_with self_call self =
     (case KS_master_key self of
        None \<Rightarrow> Inl (ValueError ''Key not set during initialisation'')
      | Some k \<Rightarrow> bind_result (self_call self k) (\<lambda>keys. Inr keys))"

definition DES_KS_getitem :: "'v DES_KS \<Rightarrow> int \<Rightarrow> error + 'v" where
  "DES_KS_getitem self r = DES_KS_getitem_with DES_KS_call self r"

definition DES_KS_iter :: "'v DES_KS \<Rightarrow> error + 'v list" where
  "DES_KS_iter self = DES_KS_iter_with DES_KS_call self"

subsection \<open>Equality through the instance dictionaries\<close>

text \<open>
  Both \<open>__eq__\<close> methods return \<open>False\<close> unless \<open>other\<close> is an instance of the
  same class, and otherwise compare \<open>self.__dict__\<close> with \<open>other.__dict__\<close>. An
  instance dictionary is the list of the attributes \<open>__init__\<close> has set, in that order.
  Two dictionaries are equal when they have the same number of keys and every key of the
  first is bound in the second to an equal value.
\<close>

definition dict_eq :: "('a \<Rightarrow> 'a \<Rightarrow> bool) \<Rightarrow> (string \<times> 'a) list \<Rightarrow> (string \<times> 'a) list \<Rightarrow> bool" where
  "dict_eq eq d e =
     (length d = length e \<and>
      list_all (\<lambda>(k, v). case map_of e k of None \<Rightarrow> False | Some w \<Rightarrow> eq v w) d)"

datatype 'v ks_attr = KS_int int | KS_key "'v option"

definition DES_KS_dict :: "'v DES_KS \<Rightarrow> (string \<times> 'v ks_attr) list" where
  "DES_KS_dict self =
     [(''_rounds'', KS_int (KS_rounds self)),
      (''_master_key'', KS_key (KS_master_key self))]"

definition DES_KS_eq :: "'v DES_KS \<Rightarrow> 'v object \<Rightarrow> bool" where
  "DES_KS_eq self other =
     (case other of
        Other_object (Py_DES_KS ks) \<Rightarrow> dict_eq (=) (DES_KS_dict self) (DES_KS_dict ks)
      | _ \<Rightarrow> False)"

datatype 'v des_attr = DES_int int | DES_ks "'v DES_KS"

text \<open>\<open>==\<close> on the attribute values of a \<open>DES\<close>: key schedules compare by their own \<open>__eq__\<close>.\<close>

fun des_attr_eq :: "'v des_attr \<Rightarrow> 'v des_attr \<Rightarrow> bool" where
  "des_attr_eq (DES_int a) (DES_int b) = (a = b)"
| "des_attr_eq (DES_ks a) (DES_ks b) = DES_KS_eq a (Other_object (Py_DES_KS b))"
| "des_attr_eq _ _ = False"

definition DES_dict :: "'v DES \<Rightarrow> (string \<times> 'v des_attr) list" where
  "DES_dict self =
     [(''_keySchedule'', DES_ks (DES_keySchedule self)),
      (''_rounds'', DES_int (DES_rounds self)),
      (''_blocksize'', DES_int (DES_blocksize self))]"

definition DES_eq :: "'v DES \<Rightarrow> 'v object \<Rightarrow> bool" where
  "DES_eq self other =
     (case other of
        DES_object d \<Rightarrow> dict_eq des_attr_eq (DES_dict self) (DES_dict d)
      | _ \<Rightarrow> False)"

section \<open>Properties\<close>

subsection \<open>The shift table and the rotation\<close>

lemma amount_rounds:
  "list_all (\<lambda>i. py_index amount (i - 1) = Inr (spec_shift i)) [1..16]"
  by code_simp

lemma amount_spec_shift:
  assumes "1 \<le> i" and "i \<le> 16"
  shows "py_index amount (i - 1) = Inr (spec_shift i)"
proof -
  from assms have "i \<in> set [1..16]"
    by simp
  with amount_rounds show ?thesis
    unfolding list_all_iff by blast
qed

lemma spec_shift_cases: "spec_shift i = 1 \<or> spec_shift i = 2"
  by (simp add: spec_shift_def)

text \<open>
  For one or two positions, the two slices glued together are the circular rotation,
  whatever the length of the half (also for a half shorter than the amount).
\<close>

lemma drop_take_rotate:
  assumes "a = 1 \<or> a = 2"
  shows "drop a h @ take a h = rotate a h"
proof (cases h)
  case Nil
  then show ?thesis by simp
next
  case (Cons x t)
  show ?thesis
  proof (cases t)
    case Nil
    with \<open>h = x # t\<close> assms show ?thesis by (auto simp: numeral_2_eq_2)
  next
    case (Cons y u)
    with \<open>h = x # t\<close> assms show ?thesis by (auto simp: numeral_2_eq_2)
  qed
qed

text \<open>
  C7. For a round \<open>i\<close> from 1 to 16, \<open>_left_shift(half, i)\<close> returns
  \<open>half[a:] ++ half[0:a]\<close>, where \<open>a\<close> is the specification's shift amount for
  round \<open>i\<close> (1 in rounds 1, 2, 9, 16 and 2 otherwise), and this is \<open>half\<close> rotated
  circularly to the left by \<open>a\<close>. The pattern (1,0,1,0,1,0) becomes (0,1,0,1,0,1) in
  round 1 and comes back unchanged from the rotation of round 3.
\<close>

theorem left_shift_rotates:
  "(1 \<le> i \<and> i \<le> 16 \<longrightarrow>
      left_shift half i = Inr (drop (spec_shift i) half @ take (spec_shift i) half) \<and>
      left_shift half i = Inr (rotate (spec_shift i) half)) \<and>
   left_shift [True, False, True, False, True, False] 1
     = Inr [False, True, False, True, False, True] \<and>
   left_shift [True, False, True, False, True, False] 3
     = Inr [True, False, True, False, True, False]"
proof -
  have general: "left_shift half i = Inr (drop (spec_shift i) half @ take (spec_shift i) half)"
    if "1 \<le> i" "i \<le> 16"
    using that by (simp add: left_shift_def bind_result_def amount_spec_shift)
  have circular: "left_shift half i = Inr (rotate (spec_shift i) half)"
    if "1 \<le> i" "i \<le> 16"
    using general [OF that] drop_take_rotate [OF spec_shift_cases] by simp
  have one: "left_shift [True, False, True, False, True, False] 1
      = Inr [False, True, False, True, False, True]"
    by (simp add: left_shift_def bind_result_def py_index_def amount_def)
  have three: "left_shift [True, False, True, False, True, False] 3
      = Inr [True, False, True, False, True, False]"
    by (simp add: left_shift_def bind_result_def py_index_def amount_def)
  from general circular one three show ?thesis by blast
qed

theorem left_shift_rotates_witness:
  "(1::int) \<le> 16 \<and> (16::int) \<le> 16 \<and>
   left_shift [True, True, False, False] 16 = Inr [True, False, False, True] \<and>
   left_shift [True, True, False, False] 16 = Inr (rotate 1 [True, True, False, False])"
  using left_shift_rotates [of 16 "[True, True, False, False]"]
  by (simp add: spec_shift_def)

text \<open>
  C10. \<open>_left_shift(half, 0)\<close> does not fail: the table is read at position \<open>-1\<close>,
  its last entry, which is 1, so the half comes back rotated left by one bit, as in
  round 1 and in round 16.
\<close>

theorem left_shift_round_zero:
  "left_shift half 0 = Inr (drop 1 half @ take 1 half) \<and>
   left_shift half 0 = left_shift half 1 \<and>
   left_shift half 0 = left_shift half 16"
  by (simp add: left_shift_def bind_result_def py_index_def amount_def)

text \<open>
  C8. \<open>_left_shift\<close> does not change its argument. Whatever the round index, the
  vector \<open>half\<close> refers to holds the same bits after the call as before, and so does
  every other vector that existed before. When the call returns, its result is a
  reference to a new vector, one that did not exist in the store before the call, and
  this vector holds the rotated bits; when the table lookup fails, the store is the one
  the call started with.
\<close>

theorem left_shift_store_frame:
  "half < length s \<Longrightarrow>
   (case left_shift_store s half i of
      (res, s') \<Rightarrow>
        s' ! half = s ! half \<and> take (length s) s' = s \<and>
        (case res of
           Inl e \<Rightarrow> s' = s \<and> left_shift (s ! half) i = Inl e
         | Inr r \<Rightarrow>
             r \<noteq> half \<and> length s \<le> r \<and> r < length s' \<and>
             left_shift (s ! half) i = Inr (s' ! r)))"
  by (auto simp: left_shift_store_def left_shift_def bind_result_def new_vector_def
        nth_append split: sum.splits)

theorem left_shift_store_frame_witness:
  "(0::nat) < length [[True, False], [False, True]] \<and>
   left_shift_store [[True, False], [False, True]] 0 1 =
     (Inr 4, [[True, False], [False, True], [False], [True], [False, True]])"
  using left_shift_store_frame [of 0 "[[True, False], [False, True]]" 1]
  by (simp add: left_shift_store_def py_index_def amount_def new_vector_def)

subsection \<open>Construction\<close>

text \<open>
  C3. Constructing a \<open>DES\<close> without the \<open>keySchedule\<close> argument does not give a
  cipher with the default 16-round key schedule: the argument's default is \<open>False\<close>,
  not \<open>None\<close>, so \<open>False\<close> is stored as the key schedule and reading its
  \<open>_rounds\<close> raises AttributeError, with \<open>rounds\<close> omitted or given. Passing
  \<open>None\<close> explicitly gives what the documentation of \<open>__init__\<close> promises for the
  default: the 16-round key schedule without master key, and 16 rounds.
\<close>

theorem DES_init_default_keySchedule_raises:
  "DES_init None DES_keySchedule_default = Inl (AttributeError ''_rounds'') \<and>
   DES_init (Some r) DES_keySchedule_default = Inl (AttributeError ''_rounds'') \<and>
   DES_init None Py_None =
     Inr \<lparr>DES_keySchedule = DES_KS_init 16 None, DES_rounds = 16, DES_blocksize = 64\<rparr>"
  by (simp add: DES_init_def DES_keySchedule_default_def DES_KS_rounds_default_def
        DES_KS_init_def)

text \<open>
  C4. With a key schedule \<open>ks\<close> given: when \<open>rounds\<close> is \<open>None\<close> the cipher takes
  the rounds of \<open>ks\<close>; when \<open>rounds\<close> is at most the rounds of \<open>ks\<close> the
  construction succeeds with \<open>rounds\<close>; when \<open>rounds\<close> is greater, it raises the
  ValueError that the specification calls ConfigurationError.
\<close>

theorem DES_init_rounds:
  "DES_init None (Py_DES_KS ks) =
     Inr \<lparr>DES_keySchedule = ks, DES_rounds = KS_rounds ks, DES_blocksize = 64\<rparr> \<and>
   (r \<le> KS_rounds ks \<longrightarrow>
      DES_init (Some r) (Py_DES_KS ks) =
        Inr \<lparr>DES_keySchedule = ks, DES_rounds = r, DES_blocksize = 64\<rparr>) \<and>
   (KS_rounds ks < r \<longrightarrow>
      DES_init (Some r) (Py_DES_KS ks) =
        Inl (ValueError
          ''number of rounds must be less or equal to the number of rounds of the key schedule''))"
  by (simp add: DES_init_def)

theorem DES_init_rounds_witness:
  "(8::int) \<le> KS_rounds (DES_KS_init 16 (None :: int option)) \<and>
   DES_init (Some 8) (Py_DES_KS (DES_KS_init 16 (None :: int option))) =
     Inr \<lparr>DES_keySchedule = DES_KS_init 16 None, DES_rounds = 8, DES_blocksize = 64\<rparr> \<and>
   KS_rounds (DES_KS_init 16 (None :: int option)) < 17 \<and>
   DES_init (Some 17) (Py_DES_KS (DES_KS_init 16 (None :: int option))) =
     Inl (ValueError
       ''number of rounds must be less or equal to the number of rounds of the key schedule'')"
  using DES_init_rounds [of "DES_KS_init 16 (None :: int option)" 8]
    DES_init_rounds [of "DES_KS_init 16 (None :: int option)" 17]
  by (simp add: DES_KS_init_def)

subsection \<open>Encryption, decryption and dispatch\<close>

text \<open>
  C1. Decrypting the encryption of a block gives the block back: not in this code.
  \<open>encrypt\<close> raises NotImplementedError on every block and key, so the composition
  with \<open>decrypt\<close> raises too and never returns the block; shown for every cipher,
  block and key, and on the cipher built by \<open>DES(None, None)\<close> with the block
  0x0123456789ABCDEF and the key 0x133457799BBCDFF1.
\<close>

theorem encrypt_then_decrypt_raises:
  "bind_result (encrypt d P K) (\<lambda>C. decrypt d C K) = Inl NotImplementedError \<and>
   bind_result (encrypt d P K) (\<lambda>C. decrypt d C K) \<noteq> Inr P \<and>
   DES_init None Py_None =
     Inr \<lparr>DES_keySchedule = DES_KS_init 16 None, DES_rounds = 16, DES_blocksize = 64\<rparr> \<and>
   bind_result
     (encrypt \<lparr>DES_keySchedule = DES_KS_init 16 None, DES_rounds = 16, DES_blocksize = 64\<rparr>
        (0x0123456789ABCDEF :: int) 0x133457799BBCDFF1)
     (\<lambda>C. decrypt \<lparr>DES_keySchedule = DES_KS_init 16 None, DES_rounds = 16, DES_blocksize = 64\<rparr>
        C 0x133457799BBCDFF1)
   = Inl NotImplementedError"
  by (simp add: encrypt_def decrypt_def bind_result_def DES_init_def DES_KS_rounds_default_def
        DES_KS_init_def)

text \<open>
  C2. The known-answer vector is not reproduced: \<open>encrypt\<close> of the zero block under
  the zero key raises NotImplementedError instead of returning 0x8CA64DE9C1B123A7, and
  \<open>decrypt\<close> of that ciphertext under the zero key raises instead of returning zero.
\<close>

theorem known_answer_raises:
  "encrypt d (0 :: int) 0 = Inl NotImplementedError \<and>
   encrypt d (0 :: int) 0 \<noteq> Inr 0x8CA64DE9C1B123A7 \<and>
   decrypt d (0x8CA64DE9C1B123A7 :: int) 0 = Inl NotImplementedError \<and>
   decrypt d (0x8CA64DE9C1B123A7 :: int) 0 \<noteq> Inr 0"
  by (simp add: encrypt_def decrypt_def)

text \<open>
  C5. The call form of the cipher gives, for the algorithm \<open>encrypt\<close>, exactly the
  outcome of the cipher's \<open>encrypt\<close> method on the same block and key, for
  \<open>decrypt\<close> exactly the outcome of its \<open>decrypt\<close> method, and for every other
  string the ValueError that the specification calls ConfigurationError, whatever the
  block and the key. This holds of the body of \<open>__call__\<close> for any two methods, and
  so of the class as it stands.
\<close>

theorem DES_call_dispatch:
  "DES_call_with enc dec d B K ''encrypt'' = enc d B K \<and>
   DES_call_with enc dec d B K ''decrypt'' = dec d B K \<and>
   (algorithm \<noteq> ''encrypt'' \<and> algorithm \<noteq> ''decrypt'' \<longrightarrow>
      DES_call_with enc dec d B K algorithm =
        Inl (ValueError (''Algorithm must be 'encrypt' or 'decrypt' and not '' @
               [CHR 0x27] @ algorithm @ [CHR 0x27]))) \<and>
   DES_call d B K ''encrypt'' = encrypt d B K \<and>
   DES_call d B K ''decrypt'' = decrypt d B K \<and>
   (algorithm \<noteq> ''encrypt'' \<and> algorithm \<noteq> ''decrypt'' \<longrightarrow>
      DES_call d B K algorithm =
        Inl (ValueError (''Algorithm must be 'encrypt' or 'decrypt' and not '' @
               [CHR 0x27] @ algorithm @ [CHR 0x27])))"
  by (simp add: DES_call_def DES_call_with_def)

theorem DES_call_dispatch_witness:
  "''Encrypt'' \<noteq> ''encrypt'' \<and> ''Encrypt'' \<noteq> ''decrypt'' \<and>
   DES_call_with (\<lambda>self P K. Inr (P + K)) (\<lambda>self C K. Inr (C - K))
     \<lparr>DES_keySchedule = DES_KS_init 16 None, DES_rounds = 16, DES_blocksize = 64\<rparr>
     (7 :: int) 5 ''encrypt'' = Inr 12 \<and>
   DES_call_with (\<lambda>self P K. Inr (P + K)) (\<lambda>self C K. Inr (C - K))
     \<lparr>DES_keySchedule = DES_KS_init 16 None, DES_rounds = 16, DES_blocksize = 64\<rparr>
     (7 :: int) 5 ''decrypt'' = Inr 2 \<and>
   DES_call_with (\<lambda>self P K. Inr (P + K)) (\<lambda>self C K. Inr (C - K))
     \<lparr>DES_keySchedule = DES_KS_init 16 None, DES_rounds = 16, DES_blocksize = 64\<rparr>
     (7 :: int) 5 ''Encrypt'' =
     Inl (ValueError (''Algorithm must be 'encrypt' or 'decrypt' and not '' @
            [CHR 0x27] @ ''Encrypt'' @ [CHR 0x27])) \<and>
   DES_call \<lparr>DES_keySchedule = DES_KS_init 16 None, DES_rounds = 16, DES_blocksize = 64\<rparr>
     (7 :: int) 5 ''Encrypt'' =
     Inl (ValueError (''Algorithm must be 'encrypt' or 'decrypt' and not '' @
            [CHR 0x27] @ ''Encrypt'' @ [CHR 0x27]))"
  using DES_call_dispatch
    [of "\<lambda>self P K. Inr (P + K)" "\<lambda>self C K. Inr (C - K)"
        "\<lparr>DES_keySchedule = DES_KS_init 16 None, DES_rounds = 16, DES_blocksize = 64\<rparr>"
        "7 :: int" 5 "''Encrypt''"]
  by simp

subsection \<open>Round keys by index and by iteration\<close>

text \<open>
  C6. A key schedule constructed without a master key raises the ValueError that the
  specification calls ConfigurationError, both when indexed (at every index \<open>r\<close>) and
  when iteration is requested. A key schedule constructed with the master key \<open>k\<close>
  answers an index \<open>r\<close> with element \<open>r\<close> of the round keys derived from \<open>k\<close>, and
  iterates over exactly the round keys derived from \<open>k\<close>, in their order; an exception
  of the derivation is passed on unchanged. This holds of the bodies of
  \<open>__getitem__\<close> and \<open>__iter__\<close> for any derivation \<open>__call__\<close>, and so of the
  class as it stands.
\<close>

theorem DES_KS_master_key_access:
  "DES_KS_getitem_with derive (DES_KS_init n None) r =
     Inl (ValueError ''Key not set during initialisation'') \<and>
   DES_KS_iter_with derive (DES_KS_init n None) =
     Inl (ValueError ''Key not set during initialisation'') \<and>
   DES_KS_getitem_with derive (DES_KS_init n (Some k)) r =
     bind_result (derive (DES_KS_init n (Some k)) k) (\<lambda>keys. py_index keys r) \<and>
   DES_KS_iter_with derive (DES_KS_init n (Some k)) = derive (DES_KS_init n (Some k)) k \<and>
   (derive (DES_KS_init n (Some k)) k = Inr keys \<and> 0 \<le> r \<and> r < int (length keys) \<longrightarrow>
      DES_KS_getitem_with derive (DES_KS_init n (Some k)) r = Inr (keys ! nat r) \<and>
      DES_KS_iter_with derive (DES_KS_init n (Some k)) = Inr keys) \<and>
   DES_KS_getitem (DES_KS_init n (None :: 'v option)) r =
     Inl (ValueError ''Key not set during initialisation'') \<and>
   DES_KS_iter (DES_KS_init n (None :: 'v option)) =
     Inl (ValueError ''Key not set during initialisation'') \<and>
   DES_KS_getitem (DES_KS_init n (Some k)) r =
     bind_result (DES_KS_call (DES_KS_init n (Some k)) (k :: 'v)) (\<lambda>keys. py_index keys r) \<and>
   DES_KS_iter (DES_KS_init n (Some k)) = DES_KS_call (DES_KS_init n (Some k)) k"
  by (auto simp: DES_KS_getitem_def DES_KS_iter_def DES_KS_getitem_with_def
        DES_KS_iter_with_def DES_KS_init_def bind_result_def py_index_def
        split: sum.splits)

theorem DES_KS_master_key_access_witness:
  "(\<lambda>self K. Inr [K, K + 1, K + 2]) (DES_KS_init 16 (Some (5 :: int))) 5 = Inr [5, 6, 7] \<and>
   (0 :: int) \<le> 1 \<and> (1 :: int) < int (length [5, 6, 7 :: int]) \<and>
   DES_KS_getitem_with (\<lambda>self K. Inr [K, K + 1, K + 2]) (DES_KS_init 16 (Some (5 :: int))) 1
     = Inr 6 \<and>
   DES_KS_iter_with (\<lambda>self K. Inr [K, K + 1, K + 2]) (DES_KS_init 16 (Some (5 :: int)))
     = Inr [5, 6, 7] \<and>
   DES_KS_getitem_with (\<lambda>self K. Inr [K, K + 1, K + 2]) (DES_KS_init 16 (None :: int option)) 1
     = Inl (ValueError ''Key not set during initialisation'')"
  using DES_KS_master_key_access
    [of "\<lambda>self K. Inr [K, K + 1, K + 2]" 16 1 "5 :: int" "[5, 6, 7]"]
  by (simp add: bind_result_def py_index_def)

subsection \<open>Equality\<close>

lemma DES_KS_eq_fields:
  "DES_KS_eq a (Other_object (Py_DES_KS b)) =
     (KS_rounds a = KS_rounds b \<and> KS_master_key a = KS_master_key b)"
  by (simp add: DES_KS_eq_def dict_eq_def DES_KS_dict_def)

text \<open>
  C9. Two key schedules are equal exactly when their rounds and their master keys are
  equal. Two ciphers are equal exactly when their rounds are equal, their key schedules
  are equal (by the key schedules' own equality, that is, field by field) and their
  block sizes are equal.
\<close>

theorem equality_is_structural:
  "DES_KS_eq a (Other_object (Py_DES_KS b)) =
     (KS_rounds a = KS_rounds b \<and> KS_master_key a = KS_master_key b) \<and>
   DES_eq c (DES_object d) =
     (DES_rounds c = DES_rounds d \<and>
      DES_KS_eq (DES_keySchedule c) (Other_object (Py_DES_KS (DES_keySchedule d))) \<and>
      DES_blocksize c = DES_blocksize d) \<and>
   DES_eq c (DES_object d) =
     (DES_rounds c = DES_rounds d \<and> DES_keySchedule c = DES_keySchedule d \<and>
      DES_blocksize c = DES_blocksize d)"
  by (auto simp: DES_KS_eq_fields DES_eq_def dict_eq_def DES_dict_def)

end
